theory Spec2Isabelle
  imports Complex_Main
begin

section \<open>The countdown timer of server.py\<close>

text \<open>
  The server keeps one \<open>TimerState\<close> object, mutated by the HTTP handlers and by the
  loop of \<open>broadcast_time\<close>, and mirrored in the file \<open>timer_state.json\<close>.

  Modelling choices.
  \<^item> \<open>seconds\<close> is a Python \<open>int\<close>: unbounded, so \<open>int\<close>.
  \<^item> A reading of \<open>time.time()\<close> is a finite double, hence a rational number. Times are
    \<open>rat\<close> and the subtraction of two readings is taken exact.
  \<^item> Every call of \<open>time.time()\<close> is an argument of the function that makes it.
  \<^item> \<open>clients\<close> is a Python set; it is a list here, in the order the \<open>for\<close> loop visits it.
\<close>

subsection \<open>Python primitives\<close>

text \<open>\<open>int(x)\<close> of a float truncates towards zero.\<close>

definition py_int :: "rat \<Rightarrow> int" where
  "py_int x = (if 0 \<le> x then \<lfloor>x\<rfloor> else \<lceil>x\<rceil>)"

datatype exn = OSError | JSONDecodeError | TypeError | KeyError string | RuntimeError

subsection \<open>class TimerState\<close>

record 'c TimerState =
  seconds :: int
  running :: bool
  last_update :: rat
  clients :: "'c list"

text \<open>\<open>TimerState.__init__\<close>; the argument is its reading of the clock.\<close>

definition TimerState_init :: "rat \<Rightarrow> 'c TimerState" where
  "TimerState_init t = \<lparr>seconds = 0, running = False, last_update = t, clients = []\<rparr>"

subsection \<open>The state file\<close>

text \<open>
  What \<open>json.load\<close> can return for the file. An object is given by its three keys, each
  of which may be absent; a key that is present carries a value of the type that
  \<open>save_state\<close> writes for it. \<open>Unparseable\<close> stands for a file that \<open>open\<close> or
  \<open>json.load\<close> rejects, \<open>NotAnObject\<close> for a JSON document that cannot be subscripted
  with a string.
\<close>

record snapshot =
  json_seconds :: "int option"
  json_running :: "bool option"
  json_last_update :: "rat option"

datatype state_file = NoFile | Unparseable | NotAnObject | Object snapshot

text \<open>
  Lines 32 to 37 of \<open>load_state\<close>: the reads inside the \<open>try\<close>, in the order of the
  source (\<open>data['seconds']\<close>, \<open>data['last_update']\<close>, \<open>data['running']\<close>). Each raise is
  an \<open>Inl\<close>.
\<close>

definition load_fields :: "state_file \<Rightarrow> exn + (int \<times> rat \<times> bool)" where
  "load_fields file =
     (case file of
        NoFile \<Rightarrow> Inl OSError
      | Unparseable \<Rightarrow> Inl JSONDecodeError
      | NotAnObject \<Rightarrow> Inl TypeError
      | Object data \<Rightarrow>
          (case json_seconds data of
             None \<Rightarrow> Inl (KeyError ''seconds'')
           | Some saved_seconds \<Rightarrow>
          (case json_last_update data of
             None \<Rightarrow> Inl (KeyError ''last_update'')
           | Some saved_update \<Rightarrow>
          (case json_running data of
             None \<Rightarrow> Inl (KeyError ''running'')
           | Some saved_running \<Rightarrow> Inr (saved_seconds, saved_update, saved_running)))))"

text \<open>
  \<open>load_state\<close>. \<open>current_time\<close> is the reading of line 34, \<open>init_time\<close> the reading made
  by \<open>TimerState()\<close> in the two fallback branches, \<open>timer_state\<close> the object of line 24.
  \<open>except Exception\<close> catches every raise of the \<open>try\<close> block, and no raise can follow
  the first assignment to \<open>timer_state\<close>.
\<close>

definition load_state :: "rat \<Rightarrow> rat \<Rightarrow> state_file \<Rightarrow> 'c TimerState \<Rightarrow> 'c TimerState" where
  "load_state current_time init_time file timer_state =
     (if file \<noteq> NoFile then
        (case load_fields file of
           Inr (saved_seconds, saved_update, saved_running) \<Rightarrow>
             (if saved_running then
                (let elapsed = max 0 (current_time - saved_update);
                     secs = max 0 (saved_seconds - py_int elapsed)
                 in timer_state\<lparr>seconds := secs, running := (0 < secs),
                                 last_update := current_time\<rparr>)
              else timer_state\<lparr>seconds := saved_seconds, running := False,
                                last_update := current_time\<rparr>)
         | Inl e \<Rightarrow> TimerState_init init_time)
      else TimerState_init init_time)"

text \<open>
  \<open>save_state\<close> swallows every exception. The file system decides what the call leaves
  behind: the new snapshot, the old file when \<open>open\<close> fails, or a truncated file, which
  no longer parses, when the write fails after \<open>open(..., 'w')\<close> has emptied it.
\<close>

datatype write_outcome = Written | OpenFailed | WriteFailed

definition save_state :: "write_outcome \<Rightarrow> 'c TimerState \<Rightarrow> state_file \<Rightarrow> state_file" where
  "save_state w st file =
     (case w of
        Written \<Rightarrow> Object \<lparr>json_seconds = Some (seconds st), json_running = Some (running st),
                            json_last_update = Some (last_update st)\<rparr>
      | OpenFailed \<Rightarrow> file
      | WriteFailed \<Rightarrow> Unparseable)"

subsection \<open>The tick of broadcast\_time\<close>

text \<open>
  Lines 75 to 82: the countdown step of one iteration of the loop, on the timer state
  alone. \<open>current_time\<close> is the reading of line 76.
\<close>

definition tick :: "rat \<Rightarrow> 'c TimerState \<Rightarrow> 'c TimerState" where
  "tick current_time st =
     (if running st then
        (let elapsed = current_time - last_update st;
             st1 = st\<lparr>seconds := max 0 (seconds st - py_int elapsed),
                      last_update := current_time\<rparr>
         in if seconds st1 \<le> 0 then st1\<lparr>running := False\<rparr> else st1)
      else st)"

subsection \<open>The handlers of /adjust and /set\<close>

datatype response = JSONResponse string int | RequestValidationError

fun status_code :: "response \<Rightarrow> nat" where
  "status_code (JSONResponse status secs) = 200"
| "status_code RequestValidationError = 422"

definition client_error :: "response \<Rightarrow> bool" where
  "client_error r = (400 \<le> status_code r \<and> status_code r < 500)"

text \<open>The bodies of the two handlers, on the timer state and the state file.\<close>

definition adjust_timer ::
  "int \<Rightarrow> rat \<Rightarrow> write_outcome \<Rightarrow> 'c TimerState \<times> state_file
     \<Rightarrow> response \<times> 'c TimerState \<times> state_file" where
  "adjust_timer delta now w = (\<lambda>(st, file).
     (let st' = st\<lparr>seconds := max 0 (seconds st + delta), last_update := now\<rparr>
      in (JSONResponse ''adjusted'' (seconds st'), st', save_state w st' file)))"

definition set_timer ::
  "int \<Rightarrow> rat \<Rightarrow> write_outcome \<Rightarrow> 'c TimerState \<times> state_file
     \<Rightarrow> response \<times> 'c TimerState \<times> state_file" where
  "set_timer secs now w = (\<lambda>(st, file).
     (let st' = st\<lparr>seconds := max 0 secs, last_update := now\<rparr>
      in (JSONResponse ''set'' (seconds st'), st', save_state w st' file)))"

text \<open>
  The parameter declarations \<open>delta: int = Query(...)\<close> and \<open>seconds: int = Query(...)\<close>:
  the framework calls the body only with an integer. \<open>Query(...)\<close> makes the parameter
  required, so an absent one (\<open>None\<close>) is refused; the annotation \<open>int\<close> makes the
  framework validate the raw text, with a validator \<open>parse\<close> that is a parameter here.
  A refused request is answered with status 422 and the body does not run.
\<close>

definition int_query :: "(string \<Rightarrow> int option) \<Rightarrow> string option \<Rightarrow> int option" where
  "int_query parse q = (case q of None \<Rightarrow> None | Some raw \<Rightarrow> parse raw)"


definition post_set ::
  "(string \<Rightarrow> int option) \<Rightarrow> string option \<Rightarrow> rat \<Rightarrow> write_outcome
     \<Rightarrow> 'c TimerState \<times> state_file \<Rightarrow> response \<times> 'c TimerState \<times> state_file" where
  "post_set parse q now w world =
     (case int_query parse q of
        None \<Rightarrow> (RequestValidationError, world)
      | Some secs \<Rightarrow> set_timer secs now w world)"

subsection \<open>The broadcast pass of broadcast\_time\<close>






section \<open>Auxiliary facts\<close>


lemma tick_nonneg: "running st \<or> 0 \<le> seconds st \<Longrightarrow> 0 \<le> seconds (tick now st)"
  by (auto simp: tick_def Let_def)

lemma fold_tick_nonneg: "0 \<le> seconds st \<Longrightarrow> 0 \<le> seconds (fold tick nows st)"
proof (induction nows arbitrary: st)
  case Nil
  then show ?case by simp
next
  case (Cons t ts)
  have "0 \<le> seconds (tick t st)"
    using Cons.prems by (simp add: tick_nonneg)
  then show ?case
    using Cons.IH by simp
qed


text \<open>
  As long as the wall clock has not gone back since \<open>last_update\<close>, a tick does not
  increase a non-negative \<open>seconds\<close>.
\<close>

lemma tick_seconds_le:
  "0 \<le> seconds st \<Longrightarrow> last_update st \<le> now \<Longrightarrow> seconds (tick now st) \<le> seconds st"
  by (auto simp: tick_def py_int_def Let_def)


section \<open>The claims\<close>

subsection \<open>C1: a tick and a clock that went back\<close>

text \<open>
  C1 says that a tick of a running timer never increases \<open>seconds\<close>, also when \<open>now\<close> is
  earlier than \<open>last_update\<close>, because elapsed is clamped at zero. \<open>load_state\<close> clamps
  (line 38); the tick does not (line 77), and \<open>int\<close> of a negative elapsed time is
  negative. A timer with 10 seconds left and \<open>last_update = 100\<close>, ticked when the clock
  reads 95, has 15 seconds left.
\<close>

theorem tick_backward_clock:
  "tick 95 \<lparr>seconds = 10, running = True, last_update = 100, clients = ([] :: nat list)\<rparr>
     = \<lparr>seconds = 15, running = True, last_update = 95, clients = []\<rparr>"
  by (simp add: tick_def py_int_def Let_def)

subsection \<open>C2: seconds is not negative\<close>




subsection \<open>C3: recovery at load time\<close>



subsection \<open>C4: adjust\<close>

text \<open>
  C4. For every prior state with seconds value \<open>s\<close> and every integer \<open>delta\<close>, of any sign
  and magnitude, \<open>adjust_timer\<close> leaves \<open>seconds = max 0 (s + delta)\<close>, sets \<open>last_update\<close>
  to the time of the call and does not change \<open>running\<close>; the response reports the new
  value and the state handed to \<open>save_state\<close> is the new one.
\<close>

theorem adjust_timer_result:
  "adjust_timer delta now w (st, file) =
     (JSONResponse ''adjusted'' (max 0 (seconds st + delta)),
      st\<lparr>seconds := max 0 (seconds st + delta), last_update := now\<rparr>,
      save_state w (st\<lparr>seconds := max 0 (seconds st + delta), last_update := now\<rparr>) file)
   \<and> seconds (fst (snd (adjust_timer delta now w (st, file)))) = max 0 (seconds st + delta)
   \<and> last_update (fst (snd (adjust_timer delta now w (st, file)))) = now
   \<and> running (fst (snd (adjust_timer delta now w (st, file)))) = running st"
  by (simp add: adjust_timer_def Let_def)

text \<open>Witness of C4: a running timer at 30 is adjusted by -45 at time 7.\<close>

theorem adjust_timer_result_witness:
  "adjust_timer (- 45) 7 Written
     (\<lparr>seconds = 30, running = True, last_update = 2, clients = [1 :: nat]\<rparr>, NoFile)
   = (JSONResponse ''adjusted'' 0,
      \<lparr>seconds = 0, running = True, last_update = 7, clients = [1]\<rparr>,
      Object \<lparr>json_seconds = Some 0, json_running = Some True, json_last_update = Some 7\<rparr>)"
  using adjust_timer_result
    [of "- 45" 7 Written
        "\<lparr>seconds = 30, running = True, last_update = 2, clients = [1 :: nat]\<rparr>" NoFile]
  by (simp add: save_state_def)

subsection \<open>C5: a missing or broken state file\<close>

text \<open>
  C5. When the state file is absent, cannot be parsed, or lacks one of the keys
  \<open>seconds\<close>, \<open>running\<close>, \<open>last_update\<close>, \<open>load_state\<close> returns normally and the timer is the
  default one: 0 seconds, not running, \<open>last_update\<close> the reading of the clock made by
  \<open>TimerState()\<close>, no clients.
\<close>

theorem load_state_default:
  "file = NoFile \<or> file = Unparseable \<or> file = NotAnObject
     \<or> (\<exists>data. file = Object data \<and>
           (json_seconds data = None \<or> json_running data = None
            \<or> json_last_update data = None))
   \<Longrightarrow> load_state t t' file st0
         = \<lparr>seconds = 0, running = False, last_update = t', clients = []\<rparr>"
  by (auto simp: load_state_def load_fields_def TimerState_init_def split: option.splits)

text \<open>Witness of C5: a snapshot of a running timer without the key \<open>last_update\<close>.\<close>

theorem load_state_default_witness:
  "load_state 50 51
     (Object \<lparr>json_seconds = Some 20, json_running = Some True, json_last_update = None\<rparr>)
     \<lparr>seconds = 9, running = True, last_update = 3, clients = [1 :: nat]\<rparr>
   = \<lparr>seconds = 0, running = False, last_update = 51, clients = []\<rparr>"
  by (rule load_state_default) simp

subsection \<open>C6: a timer that reaches zero stops\<close>

text \<open>
  C6. When a tick of a running timer brings \<open>seconds\<close> to zero, or below before the floor
  at zero, that tick stops the timer. After any tick, \<open>seconds = 0\<close> implies that the
  timer is not running. Ticks never make \<open>seconds\<close> negative: after one or more ticks of
  a running timer, and after any number of ticks of a timer whose \<open>seconds\<close> was not
  negative, \<open>seconds\<close> is at least 0.
\<close>

theorem tick_stops_at_zero:
  "(running st \<longrightarrow> seconds st - py_int (now - last_update st) \<le> 0 \<longrightarrow>
      seconds (tick now st) = 0 \<and> \<not> running (tick now st))
   \<and> (seconds (tick now st) = 0 \<longrightarrow> \<not> running (tick now st))
   \<and> (running st \<longrightarrow> 0 \<le> seconds (fold tick (now # nows) st))
   \<and> (0 \<le> seconds st \<longrightarrow> 0 \<le> seconds (fold tick nows st))"
proof -
  have stops: "seconds (tick now st) = 0 \<and> \<not> running (tick now st)"
    if "running st" and "seconds st - py_int (now - last_update st) \<le> 0"
    using that by (simp add: tick_def Let_def)
  have zero: "\<not> running (tick now st)" if "seconds (tick now st) = 0"
    using that by (auto simp: tick_def Let_def split: if_splits)
  have run: "0 \<le> seconds (fold tick (now # nows) st)" if "running st"
    using that by (simp add: fold_tick_nonneg tick_nonneg)
  have any: "0 \<le> seconds (fold tick nows st)" if "0 \<le> seconds st"
    using that by (rule fold_tick_nonneg)
  from stops zero run any show ?thesis
    by blast
qed

text \<open>
  Witness of C6: a running timer with 2 seconds left is ticked 3.5 seconds after its
  last update, and then twice more.
\<close>

theorem tick_stops_at_zero_witness:
  "seconds (tick (7 / 2) \<lparr>seconds = 2, running = True, last_update = 0,
                           clients = ([] :: nat list)\<rparr>) = 0
   \<and> \<not> running (tick (7 / 2) \<lparr>seconds = 2, running = True, last_update = 0,
                                 clients = ([] :: nat list)\<rparr>)
   \<and> 0 \<le> seconds (fold tick [7 / 2, 9 / 2, 11 / 2]
            \<lparr>seconds = 2, running = True, last_update = 0, clients = ([] :: nat list)\<rparr>)"
  using tick_stops_at_zero
    [of "\<lparr>seconds = 2, running = True, last_update = 0, clients = ([] :: nat list)\<rparr>"
        "7 / 2" "[9 / 2, 11 / 2]"]
  by (simp add: py_int_def)

subsection \<open>C7: the broadcast pass\<close>




subsection \<open>C8: a missing or invalid query parameter\<close>



subsection \<open>C9: set with a negative value\<close>

text \<open>
  C9. A request to \<open>/set\<close> whose parameter is a negative integer is not refused: the
  response has status 200 and the label \<open>set\<close>, \<open>seconds\<close> becomes 0, \<open>last_update\<close> the time
  of the call, and that state is handed to \<open>save_state\<close>, which, when the write goes
  through, leaves the snapshot with \<open>seconds = 0\<close> in the file.
\<close>

theorem post_set_negative:
  "parse raw = Some v \<Longrightarrow> v < 0 \<Longrightarrow>
     post_set parse (Some raw) now w (st, file) =
       (JSONResponse ''set'' 0, st\<lparr>seconds := 0, last_update := now\<rparr>,
        save_state w (st\<lparr>seconds := 0, last_update := now\<rparr>) file)
   \<and> status_code (fst (post_set parse (Some raw) now w (st, file))) = 200
   \<and> \<not> client_error (fst (post_set parse (Some raw) now w (st, file)))
   \<and> snd (snd (post_set parse (Some raw) now Written (st, file)))
       = Object \<lparr>json_seconds = Some 0, json_running = Some (running st),
                 json_last_update = Some now\<rparr>"
  by (simp add: post_set_def int_query_def set_timer_def Let_def client_error_def
        save_state_def)

text \<open>Witness of C9: the parameter is the text \<open>-5\<close>, read as the integer -5.\<close>

theorem post_set_negative_witness:
  "post_set (\<lambda>raw. if raw = ''-5'' then Some (- 5) else None) (Some ''-5'') 7 Written
     (\<lparr>seconds = 30, running = True, last_update = 2, clients = [1 :: nat]\<rparr>, NoFile)
   = (JSONResponse ''set'' 0,
      \<lparr>seconds = 0, running = True, last_update = 7, clients = [1]\<rparr>,
      Object \<lparr>json_seconds = Some 0, json_running = Some True, json_last_update = Some 7\<rparr>)"
  using post_set_negative
    [of "\<lambda>raw. if raw = ''-5'' then Some (- 5) else None" "''-5''" "- 5" 7 Written
        "\<lparr>seconds = 30, running = True, last_update = 2, clients = [1 :: nat]\<rparr>" NoFile]
  by (simp add: save_state_def)

subsection \<open>C10: fractions of a second are dropped\<close>



end
